theory Spec2Isabelle
  imports Complex_Main "HOL-Library.AList" "HOL-Library.Sublist" "HOL-Library.Multiset"
    "HOL-Library.Signed_Division"
begin

section \<open>Common modelling conventions\<close>

text \<open>
  The three stores of \<^verbatim>\<open>src/src/memory\<close> are embedded as pure functions on explicit states.

  \<^item> A \<^verbatim>\<open>std::chrono::system_clock::time_point\<close> is the integer number of clock ticks since
    the epoch. Every operation takes the reading of the clock as an argument \<open>now\<close>; the
    successive readings inside one call are identified.
  \<^item> A \<^verbatim>\<open>double\<close> is a real number: rounding, infinities and NaN are outside the model.
    The theorem of a claim never rests on the value of a score; the number of entries
    pruning removes is the only quantity a claim's theorem takes from \<^verbatim>\<open>double\<close>
    arithmetic, and it is an integer on which the reals and the \<^verbatim>\<open>double\<close>s agree for
    the capacities evaluated.
  \<^item> A \<^verbatim>\<open>std::unordered_map\<close> is an association list; the order of the list is the
    (unspecified) iteration order of the table. \<^verbatim>\<open>find\<close> is \<^const>\<open>map_of\<close>,
    \<^verbatim>\<open>operator[]=\<close> is \<^const>\<open>AList.update\<close>, \<^verbatim>\<open>erase\<close> is \<^const>\<open>AList.delete\<close>.
  \<^item> \<^verbatim>\<open>std::sort\<close> leaves the order of equivalent elements unspecified. Every operation that
    sorts takes the sorting function as an argument \<open>srt\<close>; theorems that depend on the
    order assume only the contract of \<^verbatim>\<open>std::sort\<close> (\<open>sort_contract\<close> below), theorems
    that do not depend on it assume only that \<open>srt\<close> rearranges its input
    (\<open>sort_permutes\<close>), and \<open>insertion_sort\<close> is one function that meets both.
  \<^item> The counters of \<^verbatim>\<open>generate_id\<close> are function-local statics, shared by all stores of
    one kind in the process. They are not part of a store: \<^verbatim>\<open>create_episode\<close> and
    \<^verbatim>\<open>create_node\<close> take the counter and return it incremented.
  \<^item> Counters (\<^verbatim>\<open>access_count\<close>, sizes, capacities) are natural numbers.
  \<^item> The reader-writer lock is not modelled: calls are sequential.
\<close>

type_synonym time_point = int

definition ticks_per_hour :: int where
  \<comment> \<open>\<^verbatim>\<open>system_clock::duration\<close> counts nanoseconds (libstdc++).\<close>
  "ticks_per_hour = 3600000000000"

definition hours_between :: "time_point \<Rightarrow> time_point \<Rightarrow> int" where
  \<comment> \<open>\<^verbatim>\<open>duration_cast<hours>(now - t).count()\<close>: integer division truncating towards zero.\<close>
  "hours_between now t = (now - t) sdiv ticks_per_hour"

definition log1p :: "real \<Rightarrow> real" where
  "log1p x = ln (1 + x)"

definition sort_contract :: "('a \<Rightarrow> 'a \<Rightarrow> bool) \<Rightarrow> ('a list \<Rightarrow> 'a list) \<Rightarrow> bool" where
  \<comment> \<open>What \<^verbatim>\<open>std::sort(first, last, lt)\<close> guarantees: a permutation of the input in which
      no later element is \<open>lt\<close>-before an earlier one.\<close>
  "sort_contract lt srt \<longleftrightarrow>
     (\<forall>xs. mset (srt xs) = mset xs \<and> sorted_wrt (\<lambda>a b. \<not> lt b a) (srt xs))"

definition sort_permutes :: "('a list \<Rightarrow> 'a list) \<Rightarrow> bool" where
  \<comment> \<open>The part of the contract that does not mention the comparator: the output is a
      rearrangement of the input.\<close>
  "sort_permutes srt \<longleftrightarrow> (\<forall>xs. mset (srt xs) = mset xs)"

fun insert_by :: "('a \<Rightarrow> 'a \<Rightarrow> bool) \<Rightarrow> 'a \<Rightarrow> 'a list \<Rightarrow> 'a list" where
  "insert_by lt x [] = [x]"
| "insert_by lt x (y # ys) = (if lt y x then y # insert_by lt x ys else x # y # ys)"

fun insertion_sort :: "('a \<Rightarrow> 'a \<Rightarrow> bool) \<Rightarrow> 'a list \<Rightarrow> 'a list" where
  "insertion_sort lt [] = []"
| "insertion_sort lt (x # xs) = insert_by lt x (insertion_sort lt xs)"

definition to_remove_count :: "nat \<Rightarrow> nat \<Rightarrow> nat" where
  \<comment> \<open>\<^verbatim>\<open>size_t to_remove = size - (capacity * 0.9);\<close>: the subtraction is done in
      \<^verbatim>\<open>double\<close> and the result is converted to \<^verbatim>\<open>size_t\<close>, truncating towards zero. All
      callers have \<open>capacity \<le> size\<close>, so the difference is not negative.\<close>
  "to_remove_count sz cap = nat \<lfloor>real sz - real cap * 0.9\<rfloor>"


section \<open>MemoryStore (memory\_store.cpp)\<close>

text \<open>
  Modelled from the spec: the header \<^verbatim>\<open>gloom/memory/memory_store.hpp\<close> that declares
  \<^verbatim>\<open>Memory\<close>, \<^verbatim>\<open>Query\<close> and \<^verbatim>\<open>MemoryUpdate\<close> is not among the sources. The fields are
  those the code reads and writes, with the types the spec's data model gives them.
\<close>

record Memory =
  mem_id :: string
  content :: string
  embedding :: "real list option"
  timestamp :: time_point
  last_accessed :: time_point
  last_modified :: time_point
  access_count :: nat
  importance :: real
  tags :: "string set"
  metadata :: "string \<rightharpoonup> string"

record Query =
  q_content :: string
  q_tags :: "string list"
  start_time :: "time_point option"
  end_time :: "time_point option"

record MemoryUpdate =
  u_content :: "string option"
  u_tags :: "string set option"
  u_metadata :: "(string \<rightharpoonup> string) option"

record MemoryStore =
  memories :: "(string \<times> Memory) list"
  capacity :: nat

definition new_MemoryStore :: "nat \<Rightarrow> MemoryStore" where
  "new_MemoryStore cap = \<lparr>memories = [], capacity = cap\<rparr>"

definition size_store :: "MemoryStore \<Rightarrow> nat" where
  "size_store st = length (memories st)"

definition matches_query :: "Memory \<Rightarrow> Query \<Rightarrow> bool" where
  "matches_query memory query =
     (if q_content query \<noteq> [] \<and> \<not> sublist (q_content query) (content memory) then False
      else if q_tags query \<noteq> [] \<and> \<not> list_ex (\<lambda>tag. tag \<in> tags memory) (q_tags query) then False
      else if (case start_time query of None \<Rightarrow> False | Some s \<Rightarrow> timestamp memory < s) then False
      else if (case end_time query of None \<Rightarrow> False | Some e \<Rightarrow> timestamp memory > e) then False
      else True)"

definition calculate_retention_score :: "Memory \<Rightarrow> time_point \<Rightarrow> real" where
  "calculate_retention_score memory now =
     (let age = hours_between now (timestamp memory);
          last_access = hours_between now (last_accessed memory);
          age_score = 1 / (1 + log1p (real_of_int age));
          access_recency_score = 1 / (1 + log1p (real_of_int last_access));
          access_frequency_score = log1p (real (access_count memory));
          importance_score = importance memory
      in age_score * 0.2 + access_recency_score * 0.3 + access_frequency_score * 0.2
         + importance_score * 0.3)"

definition prune ::
  "((string \<times> real) list \<Rightarrow> (string \<times> real) list) \<Rightarrow> time_point \<Rightarrow> MemoryStore \<Rightarrow> MemoryStore"
where
  "prune srt now st =
     (if length (memories st) < capacity st then st
      else
        let scores = map (\<lambda>(i, memory). (i, calculate_retention_score memory now)) (memories st);
            sorted_scores = srt scores;
            to_remove = to_remove_count (length (memories st)) (capacity st)
        in st\<lparr>memories := fold (\<lambda>p ms. AList.delete (fst p) ms)
                               (take to_remove sorted_scores) (memories st)\<rparr>)"

definition store ::
  "((string \<times> real) list \<Rightarrow> (string \<times> real) list) \<Rightarrow> time_point \<Rightarrow> Memory \<Rightarrow> MemoryStore
     \<Rightarrow> MemoryStore \<times> bool"
where
  "store srt now memory st =
     (let st1 = (if length (memories st) \<ge> capacity st then prune srt now st else st);
          mem = memory\<lparr>timestamp := now, last_accessed := now\<rparr>
      in (st1\<lparr>memories := AList.update (mem_id mem) mem (memories st1)\<rparr>, True))"

definition touch :: "time_point \<Rightarrow> Memory \<Rightarrow> Memory" where
  \<comment> \<open>The two lines \<^verbatim>\<open>it->second.last_accessed = now(); it->second.access_count++;\<close>.\<close>
  "touch now m = m\<lparr>last_accessed := now, access_count := access_count m + 1\<rparr>"

definition retrieve :: "time_point \<Rightarrow> string \<Rightarrow> MemoryStore \<Rightarrow> MemoryStore \<times> Memory option" where
  "retrieve now i st =
     (case map_of (memories st) i of
        Some m \<Rightarrow> (st\<lparr>memories := AList.update i (touch now m) (memories st)\<rparr>, Some (touch now m))
      | None \<Rightarrow> (st, None))"

definition bump_result :: "time_point \<Rightarrow> Memory \<Rightarrow> (string \<times> Memory) list \<Rightarrow> (string \<times> Memory) list" where
  \<comment> \<open>One iteration of the loop "Update access metrics" of \<^verbatim>\<open>search\<close>.\<close>
  "bump_result now result ms =
     (case map_of ms (mem_id result) of
        Some m \<Rightarrow> AList.update (mem_id result) (touch now m) ms
      | None \<Rightarrow> ms)"

definition search ::
  "(Memory list \<Rightarrow> Memory list) \<Rightarrow> time_point \<Rightarrow> Query \<Rightarrow> nat \<Rightarrow> MemoryStore
     \<Rightarrow> MemoryStore \<times> Memory list"
where
  \<comment> \<open>\<open>srt\<close> stands for \<^verbatim>\<open>std::sort\<close> with the comparator
      \<^verbatim>\<open>calculate_relevance(a) > calculate_relevance(b)\<close>. Each call of
      \<^verbatim>\<open>calculate_relevance\<close> reads the clock itself and computes
      \<^verbatim>\<open>0.4 / (1 + log1p(age)) + 0.3 * log1p(access_count) + 0.3 * importance\<close> in
      \<^verbatim>\<open>double\<close>; the comparator is not embedded, and what is proved of \<^verbatim>\<open>search\<close> holds
      for every \<open>srt\<close> that rearranges its input.\<close>
  "search srt now query limit st =
     (let results = filter (\<lambda>memory. matches_query memory query) (map snd (memories st));
          sorted_results = srt results;
          limited = (if limit > 0 \<and> length sorted_results > limit
                     then take limit sorted_results else sorted_results)
      in (st\<lparr>memories := fold (bump_result now) limited (memories st)\<rparr>, limited))"

definition score_before :: "'k \<times> real \<Rightarrow> 'k \<times> real \<Rightarrow> bool" where
  \<comment> \<open>The comparator handed to \<^verbatim>\<open>std::sort\<close> in the pruning functions.\<close>
  "score_before a b \<longleftrightarrow> snd a < snd b"

definition update_store ::
  "time_point \<Rightarrow> string \<Rightarrow> MemoryUpdate \<Rightarrow> MemoryStore \<Rightarrow> MemoryStore \<times> bool" where
  "update_store now i upd st =
     (case map_of (memories st) i of
        None \<Rightarrow> (st, False)
      | Some m \<Rightarrow>
          let m1 = (case u_content upd of Some c \<Rightarrow> m\<lparr>content := c\<rparr> | None \<Rightarrow> m);
              m2 = (case u_tags upd of Some t \<Rightarrow> m1\<lparr>tags := t\<rparr> | None \<Rightarrow> m1);
              m3 = (case u_metadata upd of Some d \<Rightarrow> m2\<lparr>metadata := d\<rparr> | None \<Rightarrow> m2)
          in (st\<lparr>memories := AList.update i (m3\<lparr>last_modified := now\<rparr>) (memories st)\<rparr>, True))"

definition remove_store :: "string \<Rightarrow> MemoryStore \<Rightarrow> MemoryStore \<times> bool" where
  "remove_store i st =
     (st\<lparr>memories := AList.delete i (memories st)\<rparr>, map_of (memories st) i \<noteq> None)"

definition clear :: "MemoryStore \<Rightarrow> MemoryStore" where
  "clear st = st\<lparr>memories := []\<rparr>"


definition keyed :: "(string \<times> Memory) list \<Rightarrow> bool" where
  \<comment> \<open>The shape of the table of a MemoryStore: keys are unique, and \<^verbatim>\<open>store\<close> files every
      Record under its own id.\<close>
  "keyed ms \<longleftrightarrow> distinct (map fst ms) \<and> list_all (\<lambda>(k, m). mem_id m = k) ms"


section \<open>EpisodicMemory (episodic.cpp)\<close>

record Episode =
  ep_id :: string
  ep_timestamp :: time_point
  ep_memories :: "Memory list"
  ep_context :: "string \<rightharpoonup> string"
  ep_importance :: real
  ep_access_count :: nat
  ep_last_accessed :: time_point

definition new_Episode :: "time_point \<Rightarrow> string \<Rightarrow> Episode" where
  \<comment> \<open>The constructor \<^verbatim>\<open>Episode(const std::string& episode_id)\<close>.\<close>
  "new_Episode now episode_id =
     \<lparr>ep_id = episode_id, ep_timestamp = now, ep_memories = [], ep_context = Map.empty,
      ep_importance = 0, ep_access_count = 0, ep_last_accessed = now\<rparr>"

text \<open>
  Modelled from the spec: \<^verbatim>\<open>EpisodeQuery\<close> is declared in \<^verbatim>\<open>gloom/memory/episodic.hpp\<close>, which
  is not among the sources. Its context is a list of the key-value pairs the loop of
  \<^verbatim>\<open>matches_query\<close> visits.
\<close>

record EpisodeQuery =
  eq_start_time :: "time_point option"
  eq_end_time :: "time_point option"
  eq_context :: "(string \<times> string) list"
  eq_content :: string

record EpisodicMemory =
  episodes :: "(string \<times> Episode) list"
  ep_capacity :: nat
  max_memories_per_episode :: nat

definition new_EpisodicMemory :: "nat \<Rightarrow> nat \<Rightarrow> EpisodicMemory" where
  "new_EpisodicMemory max_episodes max_memories =
     \<lparr>episodes = [], ep_capacity = max_episodes, max_memories_per_episode = max_memories\<rparr>"

definition digit_char :: "nat \<Rightarrow> char" where
  \<comment> \<open>Only called with \<open>d < 10\<close>.\<close>
  "digit_char d = ''0123456789'' ! d"

function to_string :: "nat \<Rightarrow> string" where
  "to_string n = (if n < 10 then [digit_char n] else to_string (n div 10) @ [digit_char (n mod 10)])"
  by pat_completeness auto
termination
  by (relation "measure (\<lambda>n. n)") auto

definition ep_generate_id :: "nat \<Rightarrow> nat \<times> string" where
  \<comment> \<open>\<^verbatim>\<open>static std::atomic<uint64_t> counter{0}; return "ep_" + std::to_string(++counter);\<close>
      The argument is the value of the static counter before the call, the first component
      of the result its value after.\<close>
  "ep_generate_id counter = (let c = (counter + 1) mod 2 ^ 64 in (c, ''ep_'' @ to_string c))"

definition sem_generate_id :: "nat \<Rightarrow> nat \<times> string" where
  \<comment> \<open>The same in \<^verbatim>\<open>SemanticMemory::generate_id\<close>, with a static counter of its own.\<close>
  "sem_generate_id counter = (let c = (counter + 1) mod 2 ^ 64 in (c, ''sem_'' @ to_string c))"

definition calculate_memory_importance :: "Memory \<Rightarrow> real" where
  "calculate_memory_importance memory =
     importance memory * (1 + log1p (real (access_count memory)))"

definition ep_calculate_retention_score :: "Episode \<Rightarrow> time_point \<Rightarrow> real" where
  "ep_calculate_retention_score episode now =
     (let age = hours_between now (ep_timestamp episode);
          last_access = hours_between now (ep_last_accessed episode);
          age_score = 1 / (1 + log1p (real_of_int age));
          access_recency_score = 1 / (1 + log1p (real_of_int last_access));
          access_frequency_score = log1p (real (ep_access_count episode));
          importance_score = ep_importance episode
      in age_score * 0.2 + access_recency_score * 0.3 + access_frequency_score * 0.2
         + importance_score * 0.3)"

definition prune_episodes ::
  "((string \<times> real) list \<Rightarrow> (string \<times> real) list) \<Rightarrow> time_point \<Rightarrow> EpisodicMemory
     \<Rightarrow> EpisodicMemory"
where
  "prune_episodes srt now st =
     (let scores = map (\<lambda>(i, episode). (i, ep_calculate_retention_score episode now)) (episodes st);
          sorted_scores = srt scores;
          to_remove = to_remove_count (length (episodes st)) (ep_capacity st)
      in st\<lparr>episodes := fold (\<lambda>p es. AList.delete (fst p) es)
                             (take to_remove sorted_scores) (episodes st)\<rparr>)"

definition prune_memories ::
  "((nat \<times> real) list \<Rightarrow> (nat \<times> real) list) \<Rightarrow> nat \<Rightarrow> Episode \<Rightarrow> Episode"
where
  \<comment> \<open>The second argument is \<^verbatim>\<open>pimpl->max_memories_per_episode\<close>.\<close>
  "prune_memories srt max_memories episode =
     (let mems = ep_memories episode;
          scores = map (\<lambda>i. (i, calculate_memory_importance (mems ! i))) [0..<length mems];
          sorted_scores = srt scores;
          to_remove = to_remove_count (length mems) max_memories;
          indices_to_remove = map fst (take to_remove sorted_scores);
          retained_memories =
            map (\<lambda>i. mems ! i) (filter (\<lambda>i. \<not> List.member indices_to_remove i) [0..<length mems])
      in episode\<lparr>ep_memories := retained_memories\<rparr>)"

definition update_episode_importance :: "Episode \<Rightarrow> Episode" where
  \<comment> \<open>The loop adds the scores from left to right and the sum is divided by the number of
      Records, all in \<^verbatim>\<open>double\<close>; here the sum and the quotient are those of the reals, so
      the value is the code's only up to rounding.\<close>
  "update_episode_importance episode =
     (let total_importance =
            fold (\<lambda>memory total. total + calculate_memory_importance memory) (ep_memories episode) 0
      in episode\<lparr>ep_importance :=
           total_importance / (if ep_memories episode = [] then 1 else real (length (ep_memories episode)))\<rparr>)"

definition create_episode ::
  "((string \<times> real) list \<Rightarrow> (string \<times> real) list) \<Rightarrow> time_point \<Rightarrow> (string \<rightharpoonup> string)
     \<Rightarrow> nat \<Rightarrow> EpisodicMemory \<Rightarrow> EpisodicMemory \<times> nat \<times> string"
where
  \<comment> \<open>The fourth argument is the static counter of \<^verbatim>\<open>generate_id\<close>, returned incremented.
      \<^verbatim>\<open>emplace\<close> inserts only when the key is absent.\<close>
  "create_episode srt now context counter st =
     (let st1 = (if length (episodes st) \<ge> ep_capacity st then prune_episodes srt now st else st);
          (c, i) = ep_generate_id counter;
          es = (case map_of (episodes st1) i of
                  None \<Rightarrow> episodes st1 @ [(i, new_Episode now i)]
                | Some _ \<Rightarrow> episodes st1)
      in (st1\<lparr>episodes := AList.map_entry i (\<lambda>e. e\<lparr>ep_context := context\<rparr>) es\<rparr>, c, i))"

definition add_memory ::
  "((nat \<times> real) list \<Rightarrow> (nat \<times> real) list) \<Rightarrow> string \<Rightarrow> Memory \<Rightarrow> EpisodicMemory
     \<Rightarrow> EpisodicMemory \<times> bool"
where
  "add_memory srt episode_id memory st =
     (case map_of (episodes st) episode_id of
        None \<Rightarrow> (st, False)
      | Some episode \<Rightarrow>
          let e1 = (if length (ep_memories episode) \<ge> max_memories_per_episode st
                    then prune_memories srt (max_memories_per_episode st) episode else episode);
              e2 = e1\<lparr>ep_memories := ep_memories e1 @ [memory]\<rparr>;
              e3 = update_episode_importance e2
          in (st\<lparr>episodes := AList.update episode_id e3 (episodes st)\<rparr>, True))"

definition recall_episode ::
  "time_point \<Rightarrow> string \<Rightarrow> EpisodicMemory \<Rightarrow> EpisodicMemory \<times> Memory list option"
where
  "recall_episode now episode_id st =
     (case map_of (episodes st) episode_id of
        None \<Rightarrow> (st, None)
      | Some episode \<Rightarrow>
          let e' = episode\<lparr>ep_last_accessed := now, ep_access_count := ep_access_count episode + 1\<rparr>
          in (st\<lparr>episodes := AList.update episode_id e' (episodes st)\<rparr>, Some (ep_memories e')))"

definition ep_matches_query :: "Episode \<Rightarrow> EpisodeQuery \<Rightarrow> bool" where
  "ep_matches_query episode query =
     (if (case eq_start_time query of None \<Rightarrow> False | Some s \<Rightarrow> ep_timestamp episode < s) then False
      else if (case eq_end_time query of None \<Rightarrow> False | Some e \<Rightarrow> ep_timestamp episode > e) then False
      else if list_ex (\<lambda>(key, val). ep_context episode key \<noteq> Some val) (eq_context query) then False
      else if eq_content query \<noteq> []
              \<and> \<not> list_ex (\<lambda>memory. sublist (eq_content query) (content memory)) (ep_memories episode)
           then False
      else True)"

definition ep_search ::
  "((string \<times> Memory list) list \<Rightarrow> (string \<times> Memory list) list) \<Rightarrow> EpisodeQuery \<Rightarrow> nat
     \<Rightarrow> EpisodicMemory \<Rightarrow> EpisodicMemory \<times> (string \<times> Memory list) list"
where
  \<comment> \<open>The state is returned as every operation returns it; the body assigns to no episode.
      \<open>srt\<close> stands for \<^verbatim>\<open>std::sort\<close> with the comparator of the source, which looks both
      episodes up again with \<^verbatim>\<open>at\<close> (a lookup that inserts nothing) and compares their
      \<^verbatim>\<open>calculate_relevance\<close>, each call reading the clock and computing in \<^verbatim>\<open>double\<close>; the
      comparator is not embedded.\<close>
  "ep_search srt query limit st =
     (let results = map (\<lambda>(i, episode). (i, ep_memories episode))
                        (filter (\<lambda>(i, episode). ep_matches_query episode query) (episodes st));
          sorted_results = srt results;
          limited = (if limit > 0 \<and> length sorted_results > limit
                     then take limit sorted_results else sorted_results)
      in (st, limited))"


section \<open>SemanticMemory (semantic.cpp)\<close>

record Node =
  node_id :: string
  concept :: string
  attributes :: "string \<rightharpoonup> string"
  relationships :: "(string \<times> real) list"
  node_importance :: real
  node_access_count :: nat
  created :: time_point
  node_last_accessed :: time_point

definition new_Node :: "time_point \<Rightarrow> string \<Rightarrow> string \<Rightarrow> Node" where
  \<comment> \<open>The constructor \<^verbatim>\<open>Node(node_id, node_concept)\<close>.\<close>
  "new_Node now i c =
     \<lparr>node_id = i, concept = c, attributes = Map.empty, relationships = [], node_importance = 0,
      node_access_count = 0, created = now, node_last_accessed = now\<rparr>"

record SemanticMemory =
  nodes :: "(string \<times> Node) list"
  sem_capacity :: nat

definition new_SemanticMemory :: "nat \<Rightarrow> SemanticMemory" where
  "new_SemanticMemory cap = \<lparr>nodes = [], sem_capacity = cap\<rparr>"

definition node_calculate_retention_score :: "Node \<Rightarrow> time_point \<Rightarrow> real" where
  "node_calculate_retention_score node now =
     (let age = hours_between now (created node);
          last_access = hours_between now (node_last_accessed node);
          age_score = 1 / (1 + log1p (real_of_int age));
          access_recency_score = 1 / (1 + log1p (real_of_int last_access));
          access_frequency_score = log1p (real (node_access_count node));
          importance_score = node_importance node;
          connectivity_score = log1p (real (length (relationships node)))
      in age_score * 0.15 + access_recency_score * 0.25 + access_frequency_score * 0.2
         + importance_score * 0.25 + connectivity_score * 0.15)"

definition prune_nodes ::
  "((string \<times> real) list \<Rightarrow> (string \<times> real) list) \<Rightarrow> time_point \<Rightarrow> SemanticMemory
     \<Rightarrow> SemanticMemory"
where
  "prune_nodes srt now st =
     (let scores = map (\<lambda>(i, node). (i, node_calculate_retention_score node now)) (nodes st);
          sorted_scores = srt scores;
          to_remove = to_remove_count (length (nodes st)) (sem_capacity st)
      in st\<lparr>nodes := fold (\<lambda>p ns. AList.delete (fst p) ns)
                          (take to_remove sorted_scores) (nodes st)\<rparr>)"

definition create_node ::
  "((string \<times> real) list \<Rightarrow> (string \<times> real) list) \<Rightarrow> time_point \<Rightarrow> string
     \<Rightarrow> (string \<rightharpoonup> string) \<Rightarrow> nat \<Rightarrow> SemanticMemory \<Rightarrow> SemanticMemory \<times> nat \<times> string"
where
  \<comment> \<open>The fifth argument is the static counter of \<^verbatim>\<open>generate_id\<close>, returned incremented.\<close>
  "create_node srt now c attrs counter st =
     (let st1 = (if length (nodes st) \<ge> sem_capacity st then prune_nodes srt now st else st);
          (n, i) = sem_generate_id counter;
          ns = (case map_of (nodes st1) i of
                  None \<Rightarrow> nodes st1 @ [(i, new_Node now i c)]
                | Some _ \<Rightarrow> nodes st1)
      in (st1\<lparr>nodes := AList.map_entry i (\<lambda>node. node\<lparr>attributes := attrs\<rparr>) ns\<rparr>, n, i))"

definition add_relationship ::
  "string \<Rightarrow> string \<Rightarrow> real \<Rightarrow> SemanticMemory \<Rightarrow> SemanticMemory \<times> bool"
where
  \<comment> \<open>\<^verbatim>\<open>find_if\<close> stops at the first edge to \<open>to_id\<close>; that edge is overwritten, or a
      new edge is appended: this is \<^const>\<open>AList.update\<close> on the edge list.\<close>
  "add_relationship from_id to_id strength st =
     (case (map_of (nodes st) from_id, map_of (nodes st) to_id) of
        (Some from_node, Some to_node) \<Rightarrow>
          (st\<lparr>nodes := AList.update from_id
                  (from_node\<lparr>relationships := AList.update to_id strength (relationships from_node)\<rparr>)
                  (nodes st)\<rparr>, True)
      | _ \<Rightarrow> (st, False))"

definition update_node_importance :: "string \<Rightarrow> real \<Rightarrow> SemanticMemory \<Rightarrow> SemanticMemory" where
  "update_node_importance i imp st =
     (case map_of (nodes st) i of
        Some node \<Rightarrow>
          st\<lparr>nodes := AList.update i (node\<lparr>node_importance := max 0 (min imp 1)\<rparr>) (nodes st)\<rparr>
      | None \<Rightarrow> st)"


section \<open>Example values\<close>

definition ex_memory :: "string \<Rightarrow> nat \<Rightarrow> Memory" where
  "ex_memory i n = \<lparr>mem_id = i, content = ''note'', embedding = None, timestamp = 10,
     last_accessed = 10, last_modified = 10, access_count = n, importance = 0,
     tags = {}, metadata = Map.empty\<rparr>"

definition ex_range_query :: Query where
  "ex_range_query = \<lparr>q_content = [], q_tags = [], start_time = Some 0, end_time = Some 10\<rparr>"




definition ex_three_stores :: MemoryStore where
  "ex_three_stores =
     fst (store (insertion_sort score_before) 3 (ex_memory ''c'' 0)
       (fst (store (insertion_sort score_before) 2 (ex_memory ''b'' 0)
         (fst (store (insertion_sort score_before) 1 (ex_memory ''a'' 0) (new_MemoryStore 2))))))"

definition ex_full_store :: MemoryStore where
  "ex_full_store =
     \<lparr>memories = [(''a'', ex_memory ''a'' 0), (''b'', ex_memory ''b'' 1), (''c'', ex_memory ''c'' 2),
                  (''d'', ex_memory ''d'' 3), (''e'', ex_memory ''e'' 4)],
      capacity = 5\<rparr>"


definition ex_episodic :: EpisodicMemory where
  "ex_episodic =
     \<lparr>episodes = [(''ep_1'', new_Episode 10 ''ep_1'')], ep_capacity = 100,
      max_memories_per_episode = 50\<rparr>"

definition ex_episode_query :: EpisodeQuery where
  "ex_episode_query = \<lparr>eq_start_time = None, eq_end_time = None, eq_context = [], eq_content = []\<rparr>"

definition ex_semantic :: SemanticMemory where
  "ex_semantic =
     \<lparr>nodes = [(''sem_1'', new_Node 10 ''sem_1'' ''animal''), (''sem_2'', new_Node 10 ''sem_2'' ''animal'')],
      sem_capacity = 100\<rparr>"

definition ex_semantic_edges :: SemanticMemory where
  "ex_semantic_edges =
     \<lparr>nodes = [(''sem_1'', (new_Node 10 ''sem_1'' ''animal'')
                   \<lparr>relationships := [(''sem_3'', 1 / 2), (''sem_2'', 7 / 10)]\<rparr>),
               (''sem_2'', new_Node 10 ''sem_2'' ''animal''),
               (''sem_3'', new_Node 10 ''sem_3'' ''plant'')],
      sem_capacity = 100\<rparr>"

definition ex_two_episodes :: EpisodicMemory where
  "ex_two_episodes =
     (let (s1, c1, i1) = create_episode (insertion_sort score_before) 1 Map.empty 0
                           (new_EpisodicMemory 1 1);
          (s2, c2, i2) = create_episode (insertion_sort score_before) 2 Map.empty c1 s1
      in s2)"

definition ex_two_memories :: EpisodicMemory where
  "ex_two_memories =
     (let (s1, c1, i1) = create_episode (insertion_sort score_before) 1 Map.empty 0
                           (new_EpisodicMemory 1 1)
      in fst (add_memory (insertion_sort score_before) i1 (ex_memory ''b'' 0)
            (fst (add_memory (insertion_sort score_before) i1 (ex_memory ''a'' 0) s1))))"

definition ex_two_nodes :: SemanticMemory where
  "ex_two_nodes =
     (let (s1, c1, i1) = create_node (insertion_sort score_before) 1 ''animal'' Map.empty 0
                           (new_SemanticMemory 1);
          (s2, c2, i2) = create_node (insertion_sort score_before) 2 ''animal'' Map.empty c1 s1
      in s2)"

definition longer_before :: "string \<times> Memory list \<Rightarrow> string \<times> Memory list \<Rightarrow> bool" where
  \<comment> \<open>A comparator for the examples: the episode with more Records first.\<close>
  "longer_before a b \<longleftrightarrow> length (snd b) < length (snd a)"



section \<open>Lemmas on the common definitions\<close>

lemma to_remove_count_div: "to_remove_count sz cap = (10 * sz - 9 * cap) div 10"
proof -
  have "real sz - real cap * 0.9 = real_of_int (10 * int sz - 9 * int cap) / real_of_int 10"
    by simp
  then have "\<lfloor>real sz - real cap * 0.9\<rfloor>
      = \<lfloor>real_of_int (10 * int sz - 9 * int cap) / real_of_int 10\<rfloor>"
    by presburger
  also have "\<dots> = (10 * int sz - 9 * int cap) div 10"
    by (rule floor_divide_of_int_eq)
  finally show ?thesis
    unfolding to_remove_count_def by (simp add: nat_div_distrib nat_diff_distrib' nat_mult_distrib)
qed


section \<open>The contract of sorting\<close>

lemma mset_insert_by: "mset (insert_by lt x ys) = add_mset x (mset ys)"
  by (induction ys) auto

lemma mset_insertion_sort: "mset (insertion_sort lt xs) = mset xs"
  by (induction xs) (auto simp: mset_insert_by)

lemma set_insert_by: "set (insert_by lt x ys) = insert x (set ys)"
  by (induction ys) auto

lemma sorted_insert_by:
  assumes asym: "\<And>a b. lt a b \<Longrightarrow> \<not> lt b a"
    and ntrans: "\<And>a b c. \<not> lt a b \<Longrightarrow> \<not> lt b c \<Longrightarrow> \<not> lt a c"
    and srt: "sorted_wrt (\<lambda>a b. \<not> lt b a) ys"
  shows "sorted_wrt (\<lambda>a b. \<not> lt b a) (insert_by lt x ys)"
  using srt
proof (induction ys)
  case Nil
  then show ?case by simp
next
  case (Cons y ys)
  show ?case
  proof (cases "lt y x")
    case True
    with Cons asym show ?thesis by (auto simp: set_insert_by)
  next
    case False
    have "\<not> lt z x" if "z \<in> set ys" for z
      using Cons.prems that False ntrans by auto
    with False Cons.prems show ?thesis by auto
  qed
qed

lemma insertion_sort_contract:
  assumes "\<And>a b. lt a b \<Longrightarrow> \<not> lt b a"
    and "\<And>a b c. \<not> lt a b \<Longrightarrow> \<not> lt b c \<Longrightarrow> \<not> lt a c"
  shows "sort_contract lt (insertion_sort lt)"
proof -
  have "sorted_wrt (\<lambda>a b. \<not> lt b a) (insertion_sort lt xs)" for xs
    by (induction xs) (simp_all add: sorted_insert_by [of lt, OF assms])
  then show ?thesis
    by (simp add: sort_contract_def mset_insertion_sort)
qed


lemma sort_contract_permutes: "sort_contract lt srt \<Longrightarrow> sort_permutes srt"
  by (simp add: sort_contract_def sort_permutes_def)


lemma insertion_sort_score: "sort_contract score_before (insertion_sort score_before)"
  by (rule insertion_sort_contract) (auto simp: score_before_def)

lemma sort_contract_set: "sort_contract lt srt \<Longrightarrow> set (srt xs) = set xs"
  unfolding sort_contract_def by (metis set_mset_mset)

lemma sort_contract_length: "sort_contract lt srt \<Longrightarrow> length (srt xs) = length xs"
  unfolding sort_contract_def by (metis size_mset)

lemma sort_contract_sorted:
  "sort_contract lt srt \<Longrightarrow> sorted_wrt (\<lambda>a b. \<not> lt b a) (srt xs)"
  unfolding sort_contract_def by blast


section \<open>MemoryStore: query matching\<close>

text \<open>
  Claim C3, as amended. With both ends of the time range set, \<^verbatim>\<open>matches_query\<close> accepts
  exactly the Records that pass the content and tag predicates and whose creation
  timestamp lies in the closed interval from \<open>start_time\<close> to \<open>end_time\<close>: a timestamp
  before \<open>start_time\<close> or after \<open>end_time\<close> does not match, a timestamp equal to
  \<open>end_time\<close> does.
\<close>

theorem matches_query_closed_range:
  assumes "start_time q = Some s" and "end_time q = Some e"
  shows "matches_query m q \<longleftrightarrow>
     (q_content q = [] \<or> sublist (q_content q) (content m)) \<and>
     (q_tags q = [] \<or> (\<exists>t \<in> set (q_tags q). t \<in> tags m)) \<and>
     s \<le> timestamp m \<and> timestamp m \<le> e"
  using assms by (auto simp: matches_query_def list_ex_iff)

theorem matches_query_closed_range_witness:
  "start_time ex_range_query = Some 0 \<and> end_time ex_range_query = Some 10 \<and>
   matches_query (ex_memory ''a'' 0) ex_range_query"
  using matches_query_closed_range [of ex_range_query 0 10 "ex_memory ''a'' 0"]
  by (simp add: ex_range_query_def ex_memory_def)

text \<open>
  Claim C3 as stated fails: a Record created exactly at \<open>end_time\<close> matches.
\<close>

theorem matches_query_end_time_counterexample:
  "end_time ex_range_query = Some (timestamp (ex_memory ''a'' 0)) \<and>
   matches_query (ex_memory ''a'' 0) ex_range_query"
  by (simp add: matches_query_def ex_range_query_def ex_memory_def)


section \<open>MemoryStore: store and retrieve\<close>

text \<open>
  Claim C7. For every Record \<open>r\<close> and every store (of any capacity, so also of capacity at
  least 1), \<^verbatim>\<open>store(r)\<close> followed by \<^verbatim>\<open>retrieve(r.id)\<close> returns a present Record with the
  content, tags and metadata of \<open>r\<close>; its timestamps are those of the two calls and its
  access count is one more than that of \<open>r\<close>.
\<close>

theorem store_then_retrieve:
  "\<exists>m. snd (retrieve now' (mem_id r) (fst (store srt now r st))) = Some m \<and>
       content m = content r \<and> tags m = tags r \<and> metadata m = metadata r \<and>
       access_count m = access_count r + 1 \<and> timestamp m = now \<and> last_accessed m = now'"
  by (simp add: retrieve_def store_def Let_def AList.update_conv' touch_def)


section \<open>MemoryStore: the table and its keys\<close>

lemma mem_id_touch [simp]: "mem_id (touch now m) = mem_id m"
  by (simp add: touch_def)

lemma list_all_update:
  "list_all P ms \<Longrightarrow> P (k, v) \<Longrightarrow> list_all P (AList.update k v ms)"
  by (induction ms) auto

lemma list_all_delete: "list_all P ms \<Longrightarrow> list_all P (AList.delete k ms)"
  by (induction ms) auto

lemma keyed_update: "keyed ms \<Longrightarrow> mem_id v = k \<Longrightarrow> keyed (AList.update k v ms)"
  by (simp add: keyed_def distinct_update list_all_update)

lemma keyed_delete: "keyed ms \<Longrightarrow> keyed (AList.delete k ms)"
  by (simp add: keyed_def distinct_delete list_all_delete)

lemma keyed_lookup: "keyed ms \<Longrightarrow> (k, m) \<in> set ms \<Longrightarrow> map_of ms k = Some m \<and> mem_id m = k"
  by (auto simp: keyed_def list_all_iff)

lemma keyed_lookup_id: "keyed ms \<Longrightarrow> map_of ms k = Some m \<Longrightarrow> mem_id m = k"
  by (auto simp: keyed_def list_all_iff dest: map_of_SomeD)


lemma keyed_bump: "keyed ms \<Longrightarrow> keyed (bump_result now r ms)"
proof (cases "map_of ms (mem_id r)")
  case None
  assume "keyed ms"
  with None show ?thesis by (simp add: bump_result_def)
next
  case (Some m)
  assume k: "keyed ms"
  then have "mem_id (touch now m) = mem_id r" using Some by (simp add: keyed_lookup_id)
  with k Some show ?thesis by (simp add: bump_result_def keyed_update)
qed







lemma hours_between_same [simp]: "hours_between t t = 0"
  by (simp add: hours_between_def)




section \<open>MemoryStore: access bookkeeping of search and retrieve\<close>




section \<open>MemoryStore: every operation keeps the table keyed\<close>

lemma keyed_fold_delete: "keyed ms \<Longrightarrow> keyed (fold (\<lambda>p ms. AList.delete (fst p) ms) ps ms)"
  by (induction ps arbitrary: ms) (simp_all add: keyed_delete)

lemma keyed_fold_bump: "keyed ms \<Longrightarrow> keyed (fold (bump_result now) rs ms)"
  by (induction rs arbitrary: ms) (simp_all add: keyed_bump)

lemma keyed_new: "keyed (memories (new_MemoryStore cap))"
  by (simp add: new_MemoryStore_def keyed_def)

lemma keyed_prune: "keyed (memories st) \<Longrightarrow> keyed (memories (prune srt now st))"
  by (simp add: prune_def Let_def keyed_fold_delete)

lemma keyed_store: "keyed (memories st) \<Longrightarrow> keyed (memories (fst (store srt now m st)))"
  by (simp add: store_def Let_def keyed_update keyed_prune)

lemma keyed_update_same:
  "keyed ms \<Longrightarrow> map_of ms i = Some m \<Longrightarrow> mem_id v = mem_id m \<Longrightarrow> keyed (AList.update i v ms)"
  using keyed_lookup_id [of ms i m] by (simp add: keyed_update)

lemma keyed_retrieve: "keyed (memories st) \<Longrightarrow> keyed (memories (fst (retrieve now i st)))"
  by (cases "map_of (memories st) i") (simp_all add: retrieve_def keyed_update_same)

lemma keyed_search: "keyed (memories st) \<Longrightarrow> keyed (memories (fst (search srt now q limit st)))"
  by (simp add: search_def Let_def keyed_fold_bump)

lemma keyed_update_store:
  "keyed (memories st) \<Longrightarrow> keyed (memories (fst (update_store now i upd st)))"
proof (cases "map_of (memories st) i")
  case None
  assume "keyed (memories st)"
  with None show ?thesis by (simp add: update_store_def)
next
  case (Some m)
  assume k: "keyed (memories st)"
  define v where "v =
    (let m1 = (case u_content upd of Some c \<Rightarrow> m\<lparr>content := c\<rparr> | None \<Rightarrow> m);
         m2 = (case u_tags upd of Some t \<Rightarrow> m1\<lparr>tags := t\<rparr> | None \<Rightarrow> m1);
         m3 = (case u_metadata upd of Some d \<Rightarrow> m2\<lparr>metadata := d\<rparr> | None \<Rightarrow> m2)
     in m3\<lparr>last_modified := now\<rparr>)"
  have "mem_id v = mem_id m"
    by (simp add: v_def Let_def split: option.splits)
  then have "keyed (AList.update i v (memories st))"
    using k Some by (intro keyed_update_same [of _ _ m]) simp_all
  moreover have "memories (fst (update_store now i upd st)) = AList.update i v (memories st)"
    using Some by (simp add: update_store_def v_def Let_def)
  ultimately show ?thesis by simp
qed

lemma keyed_remove: "keyed (memories st) \<Longrightarrow> keyed (memories (fst (remove_store i st)))"
  by (simp add: remove_store_def keyed_delete)

lemma keyed_clear: "keyed (memories (clear st))"
  by (simp add: clear_def keyed_def)


section \<open>MemoryStore: what pruning removes\<close>

text \<open>
  On a full table \<^verbatim>\<open>prune\<close> removes exactly \<open>to_remove_count\<close> entries, which is
  \<open>(10 * size - 9 * capacity) div 10\<close>, and every entry it removes has a retention score
  no greater than that of any entry it keeps (the scores being those of the model, exact
  reals at the one clock reading \<^verbatim>\<open>prune\<close> takes). From capacity 10 on, this is enough
  for \<^verbatim>\<open>store\<close> to stay within the capacity.
\<close>

lemma length_delete_present:
  "distinct (map fst ms) \<Longrightarrow> k \<in> fst ` set ms \<Longrightarrow> Suc (length (AList.delete k ms)) = length ms"
proof (induction ms)
  case Nil
  then show ?case by simp
next
  case (Cons p ms)
  show ?case
  proof (cases "fst p = k")
    case True
    with Cons.prems have "k \<notin> fst ` set ms" by auto
    with True show ?thesis by (simp add: AList.delete_id)
  next
    case False
    with Cons show ?thesis by auto
  qed
qed

lemma length_fold_delete:
  assumes "distinct (map fst ms)" and "distinct (map fst ps)" and "fst ` set ps \<subseteq> fst ` set ms"
  shows "length (fold (\<lambda>p ms. AList.delete (fst p) ms) ps ms) = length ms - length ps"
  using assms
proof (induction ps arbitrary: ms)
  case Nil
  then show ?case by simp
next
  case (Cons p ps)
  have d: "distinct (map fst (AList.delete (fst p) ms))"
    using Cons.prems(1) by (rule distinct_delete)
  have dk: "fst ` set (AList.delete (fst p) ms) = fst ` set ms - {fst p}"
    using AList.delete_keys [of "fst p" ms] by (metis set_map set_removeAll)
  have "fst ` set ps \<subseteq> fst ` set (AList.delete (fst p) ms)"
  proof
    fix k assume k: "k \<in> fst ` set ps"
    have "fst p \<notin> fst ` set ps" using Cons.prems(2) by simp
    with k have "k \<noteq> fst p" by blast
    moreover from k Cons.prems(3) have "k \<in> fst ` set ms" by auto
    ultimately show "k \<in> fst ` set (AList.delete (fst p) ms)"
      unfolding dk by simp
  qed
  with Cons.IH [OF d] Cons.prems(2)
  have "length (fold (\<lambda>p ms. AList.delete (fst p) ms) ps (AList.delete (fst p) ms))
      = length (AList.delete (fst p) ms) - length ps"
    by simp
  moreover have "Suc (length (AList.delete (fst p) ms)) = length ms"
    using Cons.prems by (intro length_delete_present) auto
  ultimately show ?case by simp
qed

lemma length_update_le: "length (AList.update k v ms) \<le> Suc (length ms)"
  by (induction ms) auto


lemma prune_size:
  assumes c: "sort_contract score_before srt" and k: "keyed (memories st)"
    and full: "capacity st \<le> length (memories st)"
  shows "size_store (prune srt now st)
     = size_store st - to_remove_count (size_store st) (capacity st)"
proof -
  define ms where "ms = memories st"
  define scores where "scores = map (\<lambda>(i, memory). (i, calculate_retention_score memory now)) ms"
  define r where "r = to_remove_count (length ms) (capacity st)"
  define removed where "removed = take r (srt scores)"
  have f: "map fst scores = map fst ms"
    unfolding scores_def by (induction ms) auto
  have d: "distinct (map fst ms)" using k by (simp add: keyed_def ms_def)
  have "mset (srt scores) = mset scores"
    using c by (simp add: sort_contract_def)
  then have "image_mset fst (mset (srt scores)) = image_mset fst (mset scores)"
    by (rule arg_cong)
  then have p: "mset (map fst (srt scores)) = mset (map fst ms)"
    by (simp add: f [symmetric])
  from p have "distinct (map fst (srt scores)) = distinct (map fst ms)"
    by (rule mset_eq_imp_distinct_iff)
  with d have ds: "distinct (map fst (srt scores))" by simp
  from p have ss: "set (map fst (srt scores)) = set (map fst ms)"
    by (rule mset_eq_setD)
  have d1: "distinct (map fst removed)"
    unfolding removed_def take_map [symmetric] using ds by (rule distinct_take)
  have "set removed \<subseteq> set (srt scores)"
    unfolding removed_def by (rule set_take_subset)
  then have "fst ` set removed \<subseteq> fst ` set (srt scores)" by (rule image_mono)
  also have "\<dots> = fst ` set ms" using ss by simp
  finally have s1: "fst ` set removed \<subseteq> fst ` set ms" .
  have l: "length (fold (\<lambda>p ms. AList.delete (fst p) ms) removed ms) = length ms - length removed"
    using d d1 s1 by (rule length_fold_delete)
  have "length (srt scores) = length scores"
    by (rule sort_contract_length [OF c])
  then have ls: "length (srt scores) = length ms" by (simp add: scores_def)
  have "r \<le> length ms"
    unfolding r_def to_remove_count_div by arith
  with ls have lr: "length removed = r" by (simp add: removed_def)
  have "\<not> length (memories st) < capacity st" using full by simp
  then have "memories (prune srt now st) = fold (\<lambda>p ms. AList.delete (fst p) ms) removed ms"
    unfolding prune_def Let_def removed_def r_def scores_def ms_def by simp
  with l lr show ?thesis
    by (simp add: size_store_def r_def ms_def)
qed


lemma store_within_capacity:
  assumes c: "sort_contract score_before srt" and k: "keyed (memories st)"
    and cap: "10 \<le> capacity st" and le: "size_store st \<le> capacity st"
  shows "size_store (fst (store srt now m st)) \<le> capacity (fst (store srt now m st))"
proof -
  define st1 where "st1 = (if length (memories st) \<ge> capacity st then prune srt now st else st)"
  define mem where "mem = m\<lparr>timestamp := now, last_accessed := now\<rparr>"
  have s: "fst (store srt now m st) = st1\<lparr>memories := AList.update (mem_id mem) mem (memories st1)\<rparr>"
    unfolding store_def Let_def st1_def mem_def by simp
  have c1: "capacity st1 = capacity st"
    unfolding st1_def prune_def Let_def by simp
  have "Suc (size_store st1) \<le> capacity st"
  proof (cases "capacity st \<le> length (memories st)")
    case True
    with le have eq: "size_store st = capacity st" by (simp add: size_store_def)
    have "size_store (prune srt now st) = capacity st - to_remove_count (capacity st) (capacity st)"
      using prune_size [OF c k True, of now] unfolding eq .
    also have "to_remove_count (capacity st) (capacity st) = capacity st div 10"
      unfolding to_remove_count_div by simp
    finally have "size_store (prune srt now st) = capacity st - capacity st div 10" .
    moreover have "1 \<le> capacity st div 10" using cap by arith
    ultimately have "Suc (size_store (prune srt now st)) \<le> capacity st" using cap by arith
    with True show ?thesis by (simp add: st1_def)
  next
    case False
    then show ?thesis by (simp add: st1_def size_store_def)
  qed
  moreover have "length (AList.update (mem_id mem) mem (memories st1)) \<le> Suc (length (memories st1))"
    by (rule length_update_le)
  ultimately have "length (AList.update (mem_id mem) mem (memories st1)) \<le> capacity st"
    unfolding size_store_def by (rule le_trans [rotated])
  then show ?thesis
    unfolding s size_store_def by (simp add: c1)
qed


lemma map_of_fold_delete:
  "map_of (fold (\<lambda>p ms. AList.delete (fst p) ms) ps ms) k
     = (if k \<in> fst ` set ps then None else map_of ms k)"
proof (induction ps arbitrary: ms)
  case Nil
  then show ?case by simp
next
  case (Cons p ps)
  show ?case
    unfolding fold_Cons o_apply Cons.IH
    by (simp add: AList.delete_conv')
qed

lemma prune_removes_lowest:
  assumes c: "sort_contract score_before srt" and k: "keyed (memories st)"
    and full: "capacity st \<le> length (memories st)"
    and before: "map_of (memories st) i = Some m"
    and gone: "map_of (memories (prune srt now st)) i = None"
    and kept: "map_of (memories (prune srt now st)) j = Some m'"
  shows "calculate_retention_score m now \<le> calculate_retention_score m' now"
proof -
  define ms where "ms = memories st"
  define scores where "scores = map (\<lambda>(i, memory). (i, calculate_retention_score memory now)) ms"
  define r where "r = to_remove_count (length ms) (capacity st)"
  define removed where "removed = take r (srt scores)"
  have d: "distinct (map fst ms)" using k by (simp add: keyed_def ms_def)
  have "\<not> length (memories st) < capacity st" using full by simp
  then have pr: "memories (prune srt now st) = fold (\<lambda>p ms. AList.delete (fst p) ms) removed ms"
    unfolding prune_def Let_def removed_def r_def scores_def ms_def by simp
  have look: "map_of (memories (prune srt now st)) x
      = (if x \<in> fst ` set removed then None else map_of ms x)" for x
    unfolding pr by (rule map_of_fold_delete)
  have i_in: "i \<in> fst ` set removed"
    using gone before look [of i] by (simp add: ms_def split: if_splits)
  have j_out: "j \<notin> fst ` set removed" and j_ms: "map_of ms j = Some m'"
    using kept look [of j] by (simp_all split: if_splits)
  have set_srt: "set (srt scores) = set scores"
    by (rule sort_contract_set [OF c])
  have score_of: "sc = calculate_retention_score x now"
    if "(key, sc) \<in> set scores" and "map_of ms key = Some x" for key sc x
  proof -
    from that(1) obtain y where y: "(key, y) \<in> set ms" and sc: "sc = calculate_retention_score y now"
      unfolding scores_def by auto
    from y d have "map_of ms key = Some y" by simp
    with that(2) sc show ?thesis by simp
  qed
  from i_in obtain si where si: "(i, si) \<in> set removed" by force
  then have "(i, si) \<in> set (srt scores)"
    unfolding removed_def by (rule in_set_takeD)
  then have si_eq: "si = calculate_retention_score m now"
    using before score_of [of i si m] by (simp add: set_srt ms_def)
  from j_ms have "(j, m') \<in> set ms" by (rule map_of_SomeD)
  then have "(j, calculate_retention_score m' now) \<in> set scores"
    unfolding scores_def by force
  then have "(j, calculate_retention_score m' now) \<in> set (take r (srt scores) @ drop r (srt scores))"
    by (simp add: set_srt)
  moreover have "(j, calculate_retention_score m' now) \<notin> set removed"
    using j_out by force
  ultimately have j_drop: "(j, calculate_retention_score m' now) \<in> set (drop r (srt scores))"
    unfolding set_append removed_def by blast
  have "sorted_wrt (\<lambda>a b. \<not> score_before b a) (take r (srt scores) @ drop r (srt scores))"
    using sort_contract_sorted [OF c, of scores] by simp
  then have "\<forall>x \<in> set (take r (srt scores)). \<forall>y \<in> set (drop r (srt scores)). \<not> score_before y x"
    unfolding sorted_wrt_append by blast
  with si j_drop have "\<not> score_before (j, calculate_retention_score m' now) (i, si)"
    unfolding removed_def by blast
  then show ?thesis by (simp add: score_before_def si_eq)
qed


section \<open>MemoryStore: capacity and pruning\<close>

text \<open>
  Claim C1, evaluated where the code breaks it. A store of capacity 2 that receives three
  Records with distinct ids holds three Records afterwards: at the third \<^verbatim>\<open>store\<close> the
  table is full, \<^verbatim>\<open>prune\<close> runs, computes \<open>to_remove = 2 - 2 * 0.9 = 0.2\<close>, truncates
  it to 0 and removes nothing, and the insertion takes the size to 3.
\<close>

theorem store_exceeds_capacity_two:
  "capacity ex_three_stores = 2 \<and> size_store ex_three_stores = 3"
  by (simp add: ex_three_stores_def store_def prune_def new_MemoryStore_def size_store_def
      ex_memory_def to_remove_count_div)

text \<open>
  Claim C2, evaluated where the code breaks it. On a full store of capacity 5 the claim
  has \<open>5 - floor (5 * 0.9) = 1\<close> entry removed; \<^verbatim>\<open>prune\<close> computes
  \<open>5 - 4.5 = 0.5\<close>, truncates it to 0 and removes none.
\<close>

theorem prune_removes_nothing_at_capacity_five:
  "size_store ex_full_store = 5 \<and> capacity ex_full_store = 5 \<and>
   5 - nat \<lfloor>real 5 * 0.9\<rfloor> = (1::nat) \<and>
   size_store (prune (insertion_sort score_before) 10 ex_full_store) = 5"
  by (simp add: ex_full_store_def prune_def size_store_def to_remove_count_div)



section \<open>The other stores prune with the same computation\<close>

text \<open>
  \<^verbatim>\<open>prune_episodes\<close>, \<^verbatim>\<open>prune_memories\<close> and \<^verbatim>\<open>prune_nodes\<close> compute the number to remove as
  \<^verbatim>\<open>prune\<close> does. With capacity 1 each of them removes nothing, and the collection holds
  two entries after the second insertion.
\<close>

lemma create_episode_exceeds_capacity_one:
  "ep_capacity ex_two_episodes = 1 \<and> map fst (episodes ex_two_episodes) = [''ep_1'', ''ep_2'']"
  by (simp add: ex_two_episodes_def create_episode_def ep_generate_id_def prune_episodes_def
      new_EpisodicMemory_def to_remove_count_div digit_char_def Let_def)

lemma add_memory_exceeds_capacity_one:
  "max_memories_per_episode ex_two_memories = 1 \<and>
   map_option (\<lambda>e. map mem_id (ep_memories e)) (map_of (episodes ex_two_memories) ''ep_1'')
     = Some [''a'', ''b'']"
  by (simp add: ex_two_memories_def add_memory_def create_episode_def ep_generate_id_def
      prune_memories_def new_EpisodicMemory_def new_Episode_def update_episode_importance_def
      to_remove_count_div digit_char_def Let_def ex_memory_def)

lemma create_node_exceeds_capacity_one:
  "sem_capacity ex_two_nodes = 1 \<and> map fst (nodes ex_two_nodes) = [''sem_1'', ''sem_2'']"
  by (simp add: ex_two_nodes_def create_node_def sem_generate_id_def prune_nodes_def
      new_SemanticMemory_def to_remove_count_div digit_char_def Let_def)

text \<open>
  The counter of \<^verbatim>\<open>generate_id\<close> belongs to the process, not to a store: a second
  EpisodicMemory created after the first has made an episode names its first episode
  \<open>ep_2\<close>.
\<close>

lemma second_store_continues_the_counter:
  "snd (snd (create_episode (insertion_sort score_before) 2 Map.empty
      (fst (snd (create_episode (insertion_sort score_before) 1 Map.empty 0
         (new_EpisodicMemory 100 50))))
      (new_EpisodicMemory 100 50))) = ''ep_2''"
  by (simp add: create_episode_def ep_generate_id_def new_EpisodicMemory_def digit_char_def
      Let_def)


section \<open>EpisodicMemory: search and recall\<close>

text \<open>
  Claim C10. \<^verbatim>\<open>EpisodicMemory::search\<close> leaves the whole state as it found it, so no
  episode's access count, last-accessed time or any other field changes, whereas
  \<^verbatim>\<open>recall_episode\<close> on a known id adds one to the episode's access count and sets its
  last-accessed time to the time of the call.
\<close>

theorem ep_search_has_no_effect:
  "fst (ep_search srt query limit st) = st \<and>
   (\<forall>i e. map_of (episodes st) i = Some e \<longrightarrow>
      map_of (episodes (fst (recall_episode now i st))) i
        = Some (e\<lparr>ep_last_accessed := now, ep_access_count := ep_access_count e + 1\<rparr>))"
  by (simp add: ep_search_def Let_def recall_episode_def AList.update_conv')

theorem ep_search_has_no_effect_witness:
  "fst (ep_search (insertion_sort longer_before) ex_episode_query 0 ex_episodic)
     = ex_episodic \<and>
   snd (ep_search (insertion_sort longer_before) ex_episode_query 0 ex_episodic)
     = [(''ep_1'', [])] \<and>
   map_of (episodes ex_episodic) ''ep_1'' = Some (new_Episode 10 ''ep_1'') \<and>
   map_of (episodes (fst (recall_episode 11 ''ep_1'' ex_episodic))) ''ep_1''
     = Some ((new_Episode 10 ''ep_1'')\<lparr>ep_last_accessed := 11, ep_access_count := 1\<rparr>)"
  using ep_search_has_no_effect [of "insertion_sort longer_before"
      ex_episode_query 0 ex_episodic 11]
  by (simp add: ex_episodic_def ep_search_def ex_episode_query_def ep_matches_query_def
      new_Episode_def)


section \<open>SemanticMemory: relationships\<close>

lemma update_absent: "k \<notin> fst ` set al \<Longrightarrow> AList.update k v al = al @ [(k, v)]"
  by (induction al) auto

lemma update_first:
  "k \<notin> fst ` set xs \<Longrightarrow> AList.update k v (xs @ (k, old) # ys) = xs @ (k, v) # ys"
  by (induction xs) auto

text \<open>
  Claim C4, as amended. \<^verbatim>\<open>add_relationship\<close> does not inspect the strength: whatever its
  value, negative ones included, when both ids are known the call returns true, the only
  node that changes is \<open>from_id\<close>, and of that node only the edge list: an existing edge
  to \<open>to_id\<close> is overwritten in place with the strength, otherwise a new edge with the
  strength is appended after the edges that were there. When either id is unknown the call
  returns false and the store is unchanged.
\<close>

theorem add_relationship_accepts_any_strength:
  "(\<forall>from_node. map_of (nodes st) from_id = Some from_node \<and> map_of (nodes st) to_id \<noteq> None \<longrightarrow>
      (\<exists>rels.
         add_relationship from_id to_id strength st
           = (st\<lparr>nodes := AList.update from_id (from_node\<lparr>relationships := rels\<rparr>) (nodes st)\<rparr>, True) \<and>
         map_of rels to_id = Some strength \<and>
         (to_id \<notin> fst ` set (relationships from_node) \<longrightarrow>
            rels = relationships from_node @ [(to_id, strength)]) \<and>
         (\<forall>xs old ys. relationships from_node = xs @ (to_id, old) # ys \<and> to_id \<notin> fst ` set xs \<longrightarrow>
            rels = xs @ (to_id, strength) # ys))) \<and>
   (map_of (nodes st) from_id = None \<or> map_of (nodes st) to_id = None \<longrightarrow>
      add_relationship from_id to_id strength st = (st, False))"
proof (intro conjI allI impI)
  fix from_node
  assume a: "map_of (nodes st) from_id = Some from_node \<and> map_of (nodes st) to_id \<noteq> None"
  let ?rels = "AList.update to_id strength (relationships from_node)"
  have "add_relationship from_id to_id strength st
      = (st\<lparr>nodes := AList.update from_id (from_node\<lparr>relationships := ?rels\<rparr>) (nodes st)\<rparr>, True)"
    using a by (auto simp: add_relationship_def)
  moreover have "map_of ?rels to_id = Some strength"
    by (simp add: AList.update_conv')
  moreover have "to_id \<notin> fst ` set (relationships from_node) \<longrightarrow>
      ?rels = relationships from_node @ [(to_id, strength)]"
    by (simp add: update_absent)
  moreover have "\<forall>xs old ys. relationships from_node = xs @ (to_id, old) # ys \<and> to_id \<notin> fst ` set xs \<longrightarrow>
      ?rels = xs @ (to_id, strength) # ys"
    by (simp add: update_first)
  ultimately show "\<exists>rels.
         add_relationship from_id to_id strength st
           = (st\<lparr>nodes := AList.update from_id (from_node\<lparr>relationships := rels\<rparr>) (nodes st)\<rparr>, True) \<and>
         map_of rels to_id = Some strength \<and>
         (to_id \<notin> fst ` set (relationships from_node) \<longrightarrow>
            rels = relationships from_node @ [(to_id, strength)]) \<and>
         (\<forall>xs old ys. relationships from_node = xs @ (to_id, old) # ys \<and> to_id \<notin> fst ` set xs \<longrightarrow>
            rels = xs @ (to_id, strength) # ys)"
    by blast
next
  assume "map_of (nodes st) from_id = None \<or> map_of (nodes st) to_id = None"
  then show "add_relationship from_id to_id strength st = (st, False)"
    by (auto simp: add_relationship_def split: option.splits)
qed

theorem add_relationship_accepts_any_strength_witness:
  "map_of (nodes ex_semantic_edges) ''sem_1''
     = Some ((new_Node 10 ''sem_1'' ''animal'')
               \<lparr>relationships := [(''sem_3'', 1 / 2), (''sem_2'', 7 / 10)]\<rparr>) \<and>
   map_of (nodes ex_semantic_edges) ''sem_2'' \<noteq> None \<and>
   ''sem_2'' \<notin> fst ` set [(''sem_3'', 1 / 2 :: real)] \<and>
   add_relationship ''sem_1'' ''sem_2'' (- 1) ex_semantic_edges
     = (ex_semantic_edges\<lparr>nodes := AList.update ''sem_1''
          ((new_Node 10 ''sem_1'' ''animal'')
             \<lparr>relationships := [(''sem_3'', 1 / 2), (''sem_2'', - 1)]\<rparr>)
          (nodes ex_semantic_edges)\<rparr>, True) \<and>
   map_of (nodes ex_semantic_edges) ''sem_1'' \<noteq> None \<and>
   ''sem_1'' \<notin> fst ` set [(''sem_3'', 1 / 2 :: real), (''sem_2'', 7 / 10)] \<and>
   add_relationship ''sem_1'' ''sem_1'' (- 1) ex_semantic_edges
     = (ex_semantic_edges\<lparr>nodes := AList.update ''sem_1''
          ((new_Node 10 ''sem_1'' ''animal'')
             \<lparr>relationships := [(''sem_3'', 1 / 2), (''sem_2'', 7 / 10), (''sem_1'', - 1)]\<rparr>)
          (nodes ex_semantic_edges)\<rparr>, True) \<and>
   map_of (nodes ex_semantic_edges) ''sem_9'' = None \<and>
   add_relationship ''sem_1'' ''sem_9'' (- 1) ex_semantic_edges = (ex_semantic_edges, False)"
proof -
  define n1 where "n1 = (new_Node 10 ''sem_1'' ''animal'')
               \<lparr>relationships := [(''sem_3'', 1 / 2), (''sem_2'', 7 / 10)]\<rparr>"
  have f: "map_of (nodes ex_semantic_edges) ''sem_1'' = Some n1"
    and t2: "map_of (nodes ex_semantic_edges) ''sem_2'' \<noteq> None"
    and t9: "map_of (nodes ex_semantic_edges) ''sem_9'' = None"
    by (simp_all add: ex_semantic_edges_def n1_def)
  have r: "relationships n1 = [(''sem_3'', 1 / 2)] @ (''sem_2'', 7 / 10) # []"
    by (simp add: n1_def)
  have o2: "''sem_2'' \<notin> fst ` set [(''sem_3'', 1 / 2 :: real)]" by simp
  have o1: "''sem_1'' \<notin> fst ` set (relationships n1)" by (simp add: n1_def)
  note over = add_relationship_accepts_any_strength
    [of ex_semantic_edges "''sem_1''" "''sem_2''" "- 1"]
  note app = add_relationship_accepts_any_strength
    [of ex_semantic_edges "''sem_1''" "''sem_1''" "- 1"]
  note unk = add_relationship_accepts_any_strength
    [of ex_semantic_edges "''sem_1''" "''sem_9''" "- 1"]
  from over f t2 obtain rels where
    e1: "add_relationship ''sem_1'' ''sem_2'' (- 1) ex_semantic_edges
       = (ex_semantic_edges\<lparr>nodes := AList.update ''sem_1'' (n1\<lparr>relationships := rels\<rparr>)
            (nodes ex_semantic_edges)\<rparr>, True)"
    and w1: "\<forall>xs old ys. relationships n1 = xs @ (''sem_2'', old) # ys \<and> ''sem_2'' \<notin> fst ` set xs \<longrightarrow>
            rels = xs @ (''sem_2'', - 1) # ys"
    by blast
  from w1 r o2 have "rels = [(''sem_3'', 1 / 2)] @ (''sem_2'', - 1) # []" by blast
  with e1 have c1: "add_relationship ''sem_1'' ''sem_2'' (- 1) ex_semantic_edges
     = (ex_semantic_edges\<lparr>nodes := AList.update ''sem_1''
          ((new_Node 10 ''sem_1'' ''animal'')
             \<lparr>relationships := [(''sem_3'', 1 / 2), (''sem_2'', - 1)]\<rparr>)
          (nodes ex_semantic_edges)\<rparr>, True)"
    by (simp add: n1_def)
  from app f obtain rels' where
    e2: "add_relationship ''sem_1'' ''sem_1'' (- 1) ex_semantic_edges
       = (ex_semantic_edges\<lparr>nodes := AList.update ''sem_1'' (n1\<lparr>relationships := rels'\<rparr>)
            (nodes ex_semantic_edges)\<rparr>, True)"
    and w2: "''sem_1'' \<notin> fst ` set (relationships n1) \<longrightarrow>
            rels' = relationships n1 @ [(''sem_1'', - 1)]"
    by blast
  from w2 o1 have "rels' = relationships n1 @ [(''sem_1'', - 1)]" by blast
  with e2 have c2: "add_relationship ''sem_1'' ''sem_1'' (- 1) ex_semantic_edges
     = (ex_semantic_edges\<lparr>nodes := AList.update ''sem_1''
          ((new_Node 10 ''sem_1'' ''animal'')
             \<lparr>relationships := [(''sem_3'', 1 / 2), (''sem_2'', 7 / 10), (''sem_1'', - 1)]\<rparr>)
          (nodes ex_semantic_edges)\<rparr>, True)"
    by (simp add: n1_def)
  from unk t9 have c3: "add_relationship ''sem_1'' ''sem_9'' (- 1) ex_semantic_edges
      = (ex_semantic_edges, False)"
    by blast
  show ?thesis
    using f t2 t9 c1 c2 c3 by (simp add: n1_def)
qed

text \<open>
  Claim C4 as stated fails: with strength \<open>-1\<close> the call succeeds and records the edge, and
  it overwrites the strength of an edge that was there.
\<close>

theorem add_relationship_negative_strength_counterexample:
  "snd (add_relationship ''sem_1'' ''sem_2'' (- 1) ex_semantic) = True \<and>
   map_of (nodes (fst (add_relationship ''sem_1'' ''sem_2'' (- 1) ex_semantic))) ''sem_1''
     = Some ((new_Node 10 ''sem_1'' ''animal'')\<lparr>relationships := [(''sem_2'', - 1)]\<rparr>) \<and>
   map_of (nodes (fst (add_relationship ''sem_1'' ''sem_2'' (- 1)
       (fst (add_relationship ''sem_1'' ''sem_2'' 0.7 ex_semantic))))) ''sem_1''
     = Some ((new_Node 10 ''sem_1'' ''animal'')\<lparr>relationships := [(''sem_2'', - 1)]\<rparr>)"
  by (simp add: add_relationship_def ex_semantic_def new_Node_def)


end
